theory Spec2Isabelle
  imports Complex_Main
begin

section \<open>Python values, failures and arithmetic\<close>

text \<open>
  The exceptions the modelled code can raise. \<open>ConfigurationError\<close> and
  \<open>EngineFailure\<close> belong to the registration engine
  (\<^verbatim>\<open>jnormcorre.motion_correction\<close>), the other five to Python itself.
\<close>

datatype error =
    ZeroDivisionError | TypeError | ValueError | IndexError | AssertionError
  | ConfigurationError | EngineFailure

text \<open>
  The values stored in the keyword dictionary \<^verbatim>\<open>mc_dict\<close>. Python floats are
  idealised as reals: a float is a real number, \<^verbatim>\<open>int(x)\<close> and \<^verbatim>\<open>ceil\<close> are exact
  on it, and the rounding of a quotient to the nearest float is left out.
\<close>

datatype pyval =
    PNone
  | PBool bool
  | PInt int
  | PFloat real
  | PList "pyval list"
  | PTuple "pyval list"
  | PSlice pyval pyval pyval

definition bind :: "error + 'a \<Rightarrow> ('a \<Rightarrow> error + 'b) \<Rightarrow> error + 'b" where
  "bind m f = (case m of Inl e \<Rightarrow> Inl e | Inr x \<Rightarrow> f x)"

text \<open>\<^verbatim>\<open>a / b\<close> on two numbers: true division, raising on a zero divisor.\<close>

definition truediv :: "real \<Rightarrow> real \<Rightarrow> error + real" where
  "truediv a b = (if b = 0 then Inl ZeroDivisionError else Inr (a / b))"

text \<open>\<^verbatim>\<open>int(x)\<close> on a float: truncation toward zero.\<close>

definition py_int :: "real \<Rightarrow> int" where
  "py_int x = (if 0 \<le> x then \<lfloor>x\<rfloor> else \<lceil>x\<rceil>)"

text \<open>\<^verbatim>\<open>math.ceil(x)\<close> returns an integer; \<^verbatim>\<open>np.ceil(x)\<close> returns a float.\<close>

definition math_ceil :: "real \<Rightarrow> int" where
  "math_ceil x = \<lceil>x\<rceil>"

definition np_ceil :: "real \<Rightarrow> real" where
  "np_ceil x = of_int \<lceil>x\<rceil>"

section \<open>Arrays and the registration engine\<close>

text \<open>
  An array (or a lazily loaded dataset) is its shape and its items. The code under
  study reads the shape and hands the items to the engine.
\<close>

record ndarray =
  shape :: "nat list"
  item :: "nat list \<Rightarrow> real"

text \<open>\<^verbatim>\<open>stack.T\<close>: the axes reversed.\<close>

definition T :: "ndarray \<Rightarrow> ndarray" where
  "T a = \<lparr>shape = rev (shape a), item = (\<lambda>ix. item a (rev ix))\<rparr>"

text \<open>
  The attributes of a \<^verbatim>\<open>MotionCorrect\<close> object that the code reads after a run: one
  rigid record per frame, and the per-frame per-patch grids of the piecewise-rigid
  pass.
\<close>

record corrector =
  kwargs :: "string \<rightharpoonup> pyval"
  shifts_rig :: "(real \<times> real) list"
  x_shifts_els :: "real list list"
  y_shifts_els :: "real list list"

text \<open>
  The engine is not part of the code under study; it is a parameter. Its constructor
  takes the dataset and the keyword arguments; \<^verbatim>\<open>motion_correct(template, save_movie)\<close>
  does the registration work (reported as a list of engine events, such as frame
  reads), updates the corrector and returns a frame-corrector object and a file name.
\<close>

record ('ev, 'obj) engine =
  MotionCorrect :: "ndarray \<Rightarrow> (string \<rightharpoonup> pyval) \<Rightarrow> error + corrector"
  motion_correct :: "corrector \<Rightarrow> ndarray option \<Rightarrow> bool
                       \<Rightarrow> 'ev list \<times> (error + corrector \<times> 'obj \<times> string)"

section \<open>\<^verbatim>\<open>correct_stack.compute_shifts\<close>\<close>

text \<open>
  A physical quantity is a scalar or a tuple:
  \<^verbatim>\<open>if not isinstance(x, tuple): x = (x, x)\<close>.
\<close>

datatype um = Scalar real | Tuple "real list"

fun broadcast :: "um \<Rightarrow> um" where
  "broadcast (Scalar s) = Tuple [s, s]"
| "broadcast (Tuple xs) = Tuple xs"

text \<open>Iterating over a quantity, as \<^verbatim>\<open>zip\<close> does: a scalar is not iterable.\<close>

fun iter :: "um \<Rightarrow> error + real list" where
  "iter (Scalar s) = Inl TypeError"
| "iter (Tuple xs) = Inr xs"

text \<open>\<^verbatim>\<open>[int(a / b) for a, b in pairs]\<close>\<close>

fun int_quotients :: "(real \<times> real) list \<Rightarrow> error + int list" where
  "int_quotients [] = Inr []"
| "int_quotients ((a, b) # ps) =
     bind (truediv a b) (\<lambda>q.
     bind (int_quotients ps) (\<lambda>qs.
     Inr (py_int q # qs)))"

text \<open>\<^verbatim>\<open>[int(a / b) for a, b in zip(phys, pixel_size)]\<close>\<close>

definition to_pixels :: "um \<Rightarrow> um \<Rightarrow> error + int list" where
  "to_pixels phys pixel_size =
     bind (iter phys) (\<lambda>ps.
     bind (iter pixel_size) (\<lambda>ds.
     int_quotients (zip ps ds)))"

text \<open>\<^verbatim>\<open>nx, xy, nt = stack.shape\<close>\<close>

fun unpack3 :: "'a list \<Rightarrow> error + 'a \<times> 'a \<times> 'a" where
  "unpack3 [a, b, c] = Inr (a, b, c)"
| "unpack3 _ = Inl ValueError"

text \<open>Lines 36 to 63: the keyword dictionary built from the arguments.\<close>

definition compute_shifts_mc_dict ::
  "ndarray \<Rightarrow> um \<Rightarrow> um \<Rightarrow> int \<Rightarrow> um \<Rightarrow> int \<times> int \<Rightarrow> int \<Rightarrow> pyval
     \<Rightarrow> error + (string \<rightharpoonup> pyval)" where
  "compute_shifts_mc_dict stack pixel_size_um max_shift_um max_deviation_rigid
       patch_motion_um overlaps splits gSig_filt =
     bind (unpack3 (shape stack)) (\<lambda>(nx, xy, nt).
     bind (truediv (of_nat nt) (of_int splits)) (\<lambda>q.
     let splits = py_int (np_ceil q);
         pixel_size_um = broadcast pixel_size_um;
         max_shift_um = broadcast max_shift_um
     in
     bind (to_pixels max_shift_um pixel_size_um) (\<lambda>max_shifts.
     bind (to_pixels patch_motion_um pixel_size_um) (\<lambda>strides.
     Inr [''min_mov'' \<mapsto> PInt (- 5),
          ''niter_rig'' \<mapsto> PInt 4,
          ''niter_els'' \<mapsto> PInt 1,
          ''nonneg_movie'' \<mapsto> PBool True,
          ''num_splits_to_process_els'' \<mapsto> PNone,
          ''num_splits_to_process_rig'' \<mapsto> PNone,
          ''splits_els'' \<mapsto> PInt splits,
          ''splits_rig'' \<mapsto> PInt splits,
          ''upsample_factor_grid'' \<mapsto> PInt 4,
          ''indices'' \<mapsto> PTuple [PSlice PNone PNone PNone, PSlice PNone PNone PNone],
          ''max_shifts'' \<mapsto> PList (map PInt max_shifts),
          ''strides'' \<mapsto> PTuple (map PInt strides),
          ''gSig_filt'' \<mapsto> gSig_filt,
          ''overlaps'' \<mapsto> PTuple [PInt (fst overlaps), PInt (snd overlaps)],
          ''max_deviation_rigid'' \<mapsto> PInt max_deviation_rigid]))))"

text \<open>
  Line 68: \<^verbatim>\<open>shifts_y, shifts_x = - np.vstack(corrector.shifts_rig).T\<close>.
  \<^verbatim>\<open>np.vstack\<close> raises on an empty list; unpacking needs exactly two rows.
\<close>

definition np_vstack :: "(real \<times> real) list \<Rightarrow> error + real list list" where
  "np_vstack rs = (if rs = [] then Inl ValueError else Inr (map (\<lambda>(a, b). [a, b]) rs))"

definition np_T :: "real list list \<Rightarrow> real list list" where
  "np_T m = transpose m"

definition np_neg :: "real list list \<Rightarrow> real list list" where
  "np_neg m = map (map uminus) m"

fun unpack2 :: "'a list \<Rightarrow> error + 'a \<times> 'a" where
  "unpack2 [a, b] = Inr (a, b)"
| "unpack2 _ = Inl ValueError"

definition negated_shifts :: "(real \<times> real) list \<Rightarrow> error + real list \<times> real list" where
  "negated_shifts rs =
     bind (np_vstack rs) (\<lambda>m.
     bind (unpack2 (np_neg (np_T m))) (\<lambda>(shifts_y, shifts_x).
     Inr (shifts_x, shifts_y)))"

text \<open>
  Lines 65 to 70: the corrector is built on \<^verbatim>\<open>stack.T\<close> with \<^verbatim>\<open>pw_rigid=False\<close>
  added to the dictionary, run with \<^verbatim>\<open>save_movie=False\<close> and no template, and its
  rigid records are returned negated.
\<close>

definition compute_shifts ::
  "('ev, 'obj) engine \<Rightarrow> ndarray \<Rightarrow> um \<Rightarrow> um \<Rightarrow> int \<Rightarrow> um \<Rightarrow> int \<times> int \<Rightarrow> int \<Rightarrow> pyval
     \<Rightarrow> error + real list \<times> real list" where
  "compute_shifts eng stack pixel_size_um max_shift_um max_deviation_rigid
       patch_motion_um overlaps splits gSig_filt =
     bind (compute_shifts_mc_dict stack pixel_size_um max_shift_um max_deviation_rigid
             patch_motion_um overlaps splits gSig_filt) (\<lambda>mc_dict.
     bind (MotionCorrect eng (T stack) (mc_dict(''pw_rigid'' \<mapsto> PBool False))) (\<lambda>corrector.
     bind (snd (motion_correct eng corrector None False)) (\<lambda>(corrector, _).
     negated_shifts (shifts_rig corrector))))"


text \<open>
  The configuration constants of \<^verbatim>\<open>compute_shifts\<close>, as a predicate on the keyword
  arguments that reach the constructor.
\<close>

definition fixed_configuration :: "(string \<rightharpoonup> pyval) \<Rightarrow> bool" where
  "fixed_configuration kw \<longleftrightarrow>
     kw ''pw_rigid'' = Some (PBool False) \<and>
     kw ''niter_rig'' = Some (PInt 4) \<and>
     kw ''niter_els'' = Some (PInt 1) \<and>
     kw ''upsample_factor_grid'' = Some (PInt 4) \<and>
     kw ''min_mov'' = Some (PInt (- 5)) \<and>
     kw ''num_splits_to_process_rig'' = Some PNone"

text \<open>
  An engine restricted to rigid-only runs that keep no movie: any other call fails.
\<close>

definition rigid_only :: "('ev, 'obj) engine \<Rightarrow> ('ev, 'obj) engine" where
  "rigid_only eng =
     \<lparr>MotionCorrect = (\<lambda>dataset kw.
        if fixed_configuration kw then MotionCorrect eng dataset kw else Inl EngineFailure),
      motion_correct = (\<lambda>c template save_movie.
        if template = None \<and> \<not> save_movie then motion_correct eng c template save_movie
        else ([], Inl EngineFailure))\<rparr>"

text \<open>
  An engine that accepts every configuration and reports the given records; it serves
  as a concrete engine in examples. Its events are the indices of the frames it reads.
\<close>

definition replay :: "(real \<times> real) list \<Rightarrow> real list list \<Rightarrow> real list list
                        \<Rightarrow> (nat, unit) engine" where
  "replay rig xs ys =
     \<lparr>MotionCorrect = (\<lambda>dataset kw.
        Inr \<lparr>kwargs = kw, shifts_rig = [], x_shifts_els = [], y_shifts_els = []\<rparr>),
      motion_correct = (\<lambda>c template save_movie.
        ([0 ..< length rig],
         Inr (c\<lparr>shifts_rig := rig, x_shifts_els := xs, y_shifts_els := ys\<rparr>, (), [])))\<rparr>"

section \<open>\<^verbatim>\<open>official_demo_script.motion_correct_pipeline\<close>\<close>

text \<open>
  What the pipeline does besides returning: the messages it displays (the time tag
  left out), the work of the engine, and the archive written by \<^verbatim>\<open>np.savez\<close>.
\<close>

datatype message =
    Running | NumberOfChunks int | Completed | SavingShifts string | ShiftsSaved

datatype npz_value =
    NoneObject | RigidShifts "(real \<times> real) list" | PatchShifts "real list list"

datatype 'ev event =
    Display message | Engine 'ev | Savez string "string \<rightharpoonup> npz_value"

text \<open>\<^verbatim>\<open>os.path.join(outdir, name)\<close> for a relative \<open>name\<close>.\<close>

definition path_join :: "string \<Rightarrow> string \<Rightarrow> string" where
  "path_join outdir name =
     (if outdir = [] \<or> last outdir = CHR ''/'' then outdir @ name
      else outdir @ ''/'' @ name)"

definition int_pair :: "int \<times> int \<Rightarrow> pyval" where
  "int_pair p = PTuple [PInt (fst p), PInt (snd p)]"

text \<open>\<^verbatim>\<open>lazy_dataset.shape[0]\<close>\<close>

definition total_frames :: "ndarray \<Rightarrow> error + nat" where
  "total_frames lazy_dataset =
     (case shape lazy_dataset of [] \<Rightarrow> Inl IndexError | t # _ \<Rightarrow> Inr t)"

text \<open>Lines 112 and 113: \<^verbatim>\<open>splits = math.ceil(total_frames / frames_per_split)\<close>.\<close>

definition number_of_chunks :: "ndarray \<Rightarrow> int \<Rightarrow> error + int" where
  "number_of_chunks lazy_dataset frames_per_split =
     bind (total_frames lazy_dataset) (\<lambda>total_frames.
     bind (truediv (of_nat total_frames) (of_int frames_per_split)) (\<lambda>q.
     Inr (math_ceil q)))"

text \<open>Lines 106 to 133: the keyword dictionary, given the number of chunks.\<close>

definition pipeline_mc_dict ::
  "int \<Rightarrow> int \<times> int \<Rightarrow> int \<Rightarrow> int \<Rightarrow> int \<Rightarrow> bool \<Rightarrow> int \<times> int \<Rightarrow> int \<times> int \<Rightarrow> int \<Rightarrow> pyval
     \<Rightarrow> (string \<rightharpoonup> pyval)" where
  "pipeline_mc_dict splits max_shifts max_deviation_rigid num_splits_to_process_els
       num_splits_to_process_rig pw_rigid strides overlaps niter_rig gSig_filt =
     (let mc_dict = [''upsample_factor_grid'' \<mapsto> PInt 4];
          mc_dict = mc_dict(''strides'' \<mapsto> int_pair strides);
          mc_dict = mc_dict(''overlaps'' \<mapsto> int_pair overlaps);
          mc_dict = mc_dict(''max_shifts'' \<mapsto> int_pair max_shifts);
          mc_dict = mc_dict(''max_deviation_rigid'' \<mapsto> PInt max_deviation_rigid);
          mc_dict =
            (if pw_rigid
             then mc_dict(''pw_rigid'' \<mapsto> PBool True, ''niter_els'' \<mapsto> PInt 1,
                          ''strides'' \<mapsto> int_pair strides, ''overlaps'' \<mapsto> int_pair overlaps)
             else mc_dict(''pw_rigid'' \<mapsto> PBool False));
          mc_dict = mc_dict(''niter_rig'' \<mapsto> PInt niter_rig);
          mc_dict = mc_dict(''num_splits_to_process_els'' \<mapsto>
                              PInt (min num_splits_to_process_els splits));
          mc_dict = mc_dict(''num_splits_to_process_rig'' \<mapsto>
                              PInt (min num_splits_to_process_rig splits));
          mc_dict = mc_dict(''gSig_filt'' \<mapsto> gSig_filt);
          mc_dict = mc_dict(''splits_els'' \<mapsto> PInt splits);
          mc_dict = mc_dict(''splits_rig'' \<mapsto> PInt splits)
      in mc_dict)"

text \<open>Lines 146 to 149: the archive of shifts.\<close>

definition shifts_archive :: "corrector \<Rightarrow> bool \<Rightarrow> (string \<rightharpoonup> npz_value)" where
  "shifts_archive corrector pw_rigid =
     [''shifts_rig'' \<mapsto> RigidShifts (shifts_rig corrector),
      ''x_shifts_els'' \<mapsto>
         (if pw_rigid then PatchShifts (x_shifts_els corrector) else NoneObject),
      ''y_shifts_els'' \<mapsto>
         (if pw_rigid then PatchShifts (y_shifts_els corrector) else NoneObject)]"

text \<open>
  The pipeline: the events in the order they happen, and the result or the exception
  that ended the run.
\<close>

definition motion_correct_pipeline ::
  "('ev, 'obj) engine \<Rightarrow> ndarray \<Rightarrow> string \<Rightarrow> int \<times> int \<Rightarrow> int \<Rightarrow> int \<Rightarrow> int \<Rightarrow> int \<Rightarrow> bool
     \<Rightarrow> int \<times> int \<Rightarrow> int \<times> int \<Rightarrow> int \<Rightarrow> pyval \<Rightarrow> bool \<Rightarrow> ndarray option
     \<Rightarrow> 'ev event list \<times> (error + 'obj \<times> string)" where
  "motion_correct_pipeline eng lazy_dataset outdir max_shifts max_deviation_rigid
       frames_per_split num_splits_to_process_els num_splits_to_process_rig pw_rigid
       strides overlaps niter_rig gSig_filt save_movie template =
     (case number_of_chunks lazy_dataset frames_per_split of
        Inl e \<Rightarrow> ([Display Running], Inl e)
      | Inr splits \<Rightarrow>
          let started = [Display Running, Display (NumberOfChunks splits)];
              mc_dict = pipeline_mc_dict splits max_shifts max_deviation_rigid
                          num_splits_to_process_els num_splits_to_process_rig pw_rigid
                          strides overlaps niter_rig gSig_filt
          in
          (case MotionCorrect eng lazy_dataset mc_dict of
             Inl e \<Rightarrow> (started, Inl e)
           | Inr corrector \<Rightarrow>
               (case motion_correct eng corrector template save_movie of
                  (work, Inl e) \<Rightarrow> (started @ map Engine work, Inl e)
                | (work, Inr (corrector, corrector_obj, target_file)) \<Rightarrow>
                    (started @ map Engine work @
                       [Display Completed,
                        Display (SavingShifts outdir),
                        Savez (path_join outdir ''shifts.npz'')
                              (shifts_archive corrector pw_rigid),
                        Display ShiftsSaved],
                     Inr (corrector_obj, target_file)))))"

text \<open>What a run left behind: the archives it wrote, and the work of the engine.\<close>

fun saved_archives :: "'ev event list \<Rightarrow> (string \<times> (string \<rightharpoonup> npz_value)) list" where
  "saved_archives [] = []"
| "saved_archives (Savez path archive # es) = (path, archive) # saved_archives es"
| "saved_archives (_ # es) = saved_archives es"

fun engine_work :: "'ev event list \<Rightarrow> 'ev list" where
  "engine_work [] = []"
| "engine_work (Engine w # es) = w # engine_work es"
| "engine_work (_ # es) = engine_work es"

section \<open>The engine's chunks and its validation\<close>

text \<open>
  Modelled from the spec: the division of the frames into chunks, done by the engine
  (\<^verbatim>\<open>jnormcorre.motion_correction\<close>, missing from the sources). A chunk is a
  half-open range of frame indices of length at most \<open>frames_per_split\<close>, the last one
  possibly shorter; the pipeline hands the engine the number of chunks.
\<close>

definition chunk :: "nat \<Rightarrow> nat \<Rightarrow> nat \<Rightarrow> nat \<times> nat" where
  "chunk nframes frames_per_split k =
     (k * frames_per_split, min ((k + 1) * frames_per_split) nframes)"

definition plan :: "nat \<Rightarrow> nat \<Rightarrow> nat \<Rightarrow> (nat \<times> nat) list" where
  "plan nframes frames_per_split num_chunks =
     map (chunk nframes frames_per_split) [0 ..< num_chunks]"

definition frames_of :: "nat \<times> nat \<Rightarrow> nat list" where
  "frames_of c = [fst c ..< snd c]"

text \<open>
  Modelled from the spec: the validation of a configuration when it is constructed,
  done by the engine's constructor (missing from the sources). With \<open>pw_rigid\<close>, a
  patch (\<open>strides[i] + overlaps[i]\<close>) that is not smaller than the field of view on
  some axis is a configuration error, and so is an iteration count below one.
\<close>

fun ints_of :: "pyval \<Rightarrow> int list" where
  "ints_of (PTuple vs) = concat (map (\<lambda>v. case v of PInt n \<Rightarrow> [n] | _ \<Rightarrow> []) vs)"
| "ints_of (PList vs) = concat (map (\<lambda>v. case v of PInt n \<Rightarrow> [n] | _ \<Rightarrow> []) vs)"
| "ints_of _ = []"

definition field_of_view :: "ndarray \<Rightarrow> nat list" where
  "field_of_view dataset = tl (shape dataset)"

definition patch_too_large :: "ndarray \<Rightarrow> (string \<rightharpoonup> pyval) \<Rightarrow> bool" where
  "patch_too_large dataset kw =
     (case (kw ''strides'', kw ''overlaps'') of
        (Some st, Some ov) \<Rightarrow>
          list_ex (\<lambda>(si, oi, di). int di \<le> si + oi)
                  (zip (ints_of st) (zip (ints_of ov) (field_of_view dataset)))
      | _ \<Rightarrow> False)"

definition invalid_configuration :: "ndarray \<Rightarrow> (string \<rightharpoonup> pyval) \<Rightarrow> bool" where
  "invalid_configuration dataset kw \<longleftrightarrow>
     (kw ''pw_rigid'' = Some (PBool True) \<and> patch_too_large dataset kw) \<or>
     (case kw ''niter_rig'' of Some (PInt n) \<Rightarrow> n < 1 | _ \<Rightarrow> False)"

definition validating :: "('ev, 'obj) engine \<Rightarrow> ('ev, 'obj) engine" where
  "validating eng =
     eng\<lparr>MotionCorrect := (\<lambda>dataset kw.
        if invalid_configuration dataset kw then Inl ConfigurationError
        else MotionCorrect eng dataset kw)\<rparr>"

text \<open>
  The chunks of a run of \<^verbatim>\<open>compute_shifts\<close>. Its argument \<open>splits\<close> is the number
  of frames in each chunk (docstring, lines 32 to 34); the number it hands to the engine
  as \<^verbatim>\<open>splits_rig\<close> and \<^verbatim>\<open>splits_els\<close> (line 37) is the number of chunks.
\<close>

definition compute_shifts_chunks :: "ndarray \<Rightarrow> int \<Rightarrow> error + (nat \<times> nat) list" where
  "compute_shifts_chunks stack splits =
     bind (unpack3 (shape stack)) (\<lambda>(nx, xy, nt).
     bind (truediv (of_nat nt) (of_int splits)) (\<lambda>q.
     Inr (plan nt (nat splits) (nat (py_int (np_ceil q))))))"

definition chunk_lengths :: "(nat \<times> nat) list \<Rightarrow> nat list" where
  "chunk_lengths cs = map (\<lambda>c. snd c - fst c) cs"

section \<open>The synthetic data and the test\<close>













section \<open>Properties of the parameter translation\<close>










section \<open>Properties of \<^verbatim>\<open>compute_shifts\<close>\<close>

text \<open>
  Claim C4. A scalar pixel size or maximum shift gives the same keyword dictionary
  (so the same \<^verbatim>\<open>max_shifts\<close> and \<^verbatim>\<open>strides\<close>) and the same result as the pair
  that repeats it.
\<close>

theorem scalar_broadcast:
  "compute_shifts_mc_dict stack (Scalar s) max_shift_um max_deviation_rigid
       patch_motion_um overlaps splits gSig_filt =
   compute_shifts_mc_dict stack (Tuple [s, s]) max_shift_um max_deviation_rigid
       patch_motion_um overlaps splits gSig_filt \<and>
   compute_shifts_mc_dict stack pixel_size_um (Scalar s) max_deviation_rigid
       patch_motion_um overlaps splits gSig_filt =
   compute_shifts_mc_dict stack pixel_size_um (Tuple [s, s]) max_deviation_rigid
       patch_motion_um overlaps splits gSig_filt \<and>
   compute_shifts eng stack (Scalar s) max_shift_um max_deviation_rigid
       patch_motion_um overlaps splits gSig_filt =
   compute_shifts eng stack (Tuple [s, s]) max_shift_um max_deviation_rigid
       patch_motion_um overlaps splits gSig_filt \<and>
   compute_shifts eng stack pixel_size_um (Scalar s) max_deviation_rigid
       patch_motion_um overlaps splits gSig_filt =
   compute_shifts eng stack pixel_size_um (Tuple [s, s]) max_deviation_rigid
       patch_motion_um overlaps splits gSig_filt"
  by (simp add: compute_shifts_def compute_shifts_mc_dict_def)

theorem scalar_broadcast_witness:
  "compute_shifts_mc_dict \<lparr>shape = [30, 20, 500], item = (\<lambda>ix. 0)\<rparr> (Scalar 2) (Scalar 12) 3
       (Tuple [50, 50]) (24, 24) 4 PNone =
   compute_shifts_mc_dict \<lparr>shape = [30, 20, 500], item = (\<lambda>ix. 0)\<rparr> (Tuple [2, 2]) (Scalar 12) 3
       (Tuple [50, 50]) (24, 24) 4 PNone"
  using scalar_broadcast[where s = 2 and max_shift_um = "Scalar 12"
          and stack = "\<lparr>shape = [30, 20, 500], item = (\<lambda>ix. 0)\<rparr>"]
  by blast

lemma transpose_pairs:
  assumes "rs \<noteq> []"
  shows "transpose (map (\<lambda>(a, b). [a, b]) rs) = [map fst rs, map snd rs]"
proof -
  let ?m = "map (\<lambda>(a, b). [a, b]) rs"
  have len: "\<forall>i < length ?m. length (?m ! i) = 2"
    by (auto simp: split_def)
  have "transpose ?m = map (\<lambda>i. map (\<lambda>j. ?m ! j ! i) [0..<length ?m]) [0..<2]"
    using assms len by (intro transpose_rectangle) auto
  also have "[0..<2] = [0, Suc 0]" by (simp add: upt_rec)
  finally have t: "transpose ?m =
      [map (\<lambda>j. ?m ! j ! 0) [0..<length rs], map (\<lambda>j. ?m ! j ! Suc 0) [0..<length rs]]"
    by simp
  have a: "map (\<lambda>j. ?m ! j ! 0) [0..<length rs] = map fst rs"
    by (rule nth_equalityI) (auto simp: split_def)
  have b: "map (\<lambda>j. ?m ! j ! Suc 0) [0..<length rs] = map snd rs"
    by (rule nth_equalityI) (auto simp: split_def)
  show ?thesis using t a b by simp
qed

lemma negated_shifts_eq:
  "rs \<noteq> [] \<Longrightarrow> negated_shifts rs = Inr (map (\<lambda>r. - snd r) rs, map (\<lambda>r. - fst r) rs)"
  by (simp add: negated_shifts_def np_vstack_def np_T_def np_neg_def bind_def transpose_pairs
        comp_def)

lemma negated_shifts_empty: "negated_shifts [] = Inl ValueError"
  by (simp add: negated_shifts_def np_vstack_def bind_def)

text \<open>
  Claim C9. When the engine has run, the pair \<open>(shifts_x, shifts_y)\<close> returned by
  \<^verbatim>\<open>compute_shifts\<close> is made of the engine's rigid records, negated and with the axes
  swapped: \<open>shifts_x\<close> holds the negated second components and \<open>shifts_y\<close> the negated
  first components. (With no record at all \<^verbatim>\<open>np.vstack\<close> raises.)
\<close>

theorem shifts_negated_and_swapped:
  assumes "compute_shifts_mc_dict stack pixel_size_um max_shift_um max_deviation_rigid
             patch_motion_um overlaps splits gSig_filt = Inr mc_dict"
    and "MotionCorrect eng (T stack) (mc_dict(''pw_rigid'' \<mapsto> PBool False)) = Inr c"
    and "snd (motion_correct eng c None False) = Inr (c', out)"
    and "shifts_rig c' \<noteq> []"
  shows "compute_shifts eng stack pixel_size_um max_shift_um max_deviation_rigid
             patch_motion_um overlaps splits gSig_filt =
           Inr (map (\<lambda>r. - snd r) (shifts_rig c'), map (\<lambda>r. - fst r) (shifts_rig c'))"
  using assms by (simp add: compute_shifts_def bind_def negated_shifts_eq)

theorem shifts_negated_and_swapped_witness:
  "compute_shifts (replay [(1, 2), (3, - 4), (0, 5 / 2)] [] [])
     \<lparr>shape = [30, 20, 3], item = (\<lambda>ix. 0)\<rparr> (Scalar 1) (Scalar 6) 3 (Tuple [100, 100])
     (24, 24) 4 PNone = Inr ([- 2, 4, - (5 / 2)], [- 1, - 3, 0])"
proof -
  let ?stack = "\<lparr>shape = [30, 20, 3], item = (\<lambda>ix. 0)\<rparr>"
  let ?eng = "replay [(1, 2), (3, - 4), (0, 5 / 2)] [] [] :: (nat, unit) engine"
  obtain mc_dict where d: "compute_shifts_mc_dict ?stack (Scalar 1) (Scalar 6) 3
      (Tuple [100, 100]) (24, 24) 4 PNone = Inr mc_dict"
    by (simp add: compute_shifts_mc_dict_def bind_def truediv_def to_pixels_def Let_def)
  let ?c = "\<lparr>kwargs = mc_dict(''pw_rigid'' \<mapsto> PBool False), shifts_rig = [],
             x_shifts_els = [], y_shifts_els = []\<rparr>"
  have c: "MotionCorrect ?eng (T ?stack) (mc_dict(''pw_rigid'' \<mapsto> PBool False)) = Inr ?c"
    by (simp add: replay_def)
  have r: "snd (motion_correct ?eng ?c None False) =
             Inr (?c\<lparr>shifts_rig := [(1, 2), (3, - 4), (0, 5 / 2)], x_shifts_els := [],
                       y_shifts_els := []\<rparr>, (), [])"
    by (simp add: replay_def)
  show ?thesis
    using shifts_negated_and_swapped[OF d c r] by simp
qed

lemma mc_dict_is_fixed:
  assumes "compute_shifts_mc_dict stack pixel_size_um max_shift_um max_deviation_rigid
             patch_motion_um overlaps splits gSig_filt = Inr mc_dict"
  shows "fixed_configuration (mc_dict(''pw_rigid'' \<mapsto> PBool False))"
  using assms
  by (auto simp: compute_shifts_mc_dict_def bind_def fixed_configuration_def Let_def
           split: sum.splits prod.splits)

lemma rigid_only_same_result:
  "compute_shifts (rigid_only eng) stack pixel_size_um max_shift_um max_deviation_rigid
       patch_motion_um overlaps splits gSig_filt =
   compute_shifts eng stack pixel_size_um max_shift_um max_deviation_rigid
       patch_motion_um overlaps splits gSig_filt"
proof (cases "compute_shifts_mc_dict stack pixel_size_um max_shift_um max_deviation_rigid
       patch_motion_um overlaps splits gSig_filt")
  case (Inl e)
  then show ?thesis by (simp add: compute_shifts_def bind_def)
next
  case (Inr mc_dict)
  with mc_dict_is_fixed[OF Inr] show ?thesis
    by (simp add: compute_shifts_def bind_def rigid_only_def)
qed

text \<open>
  Claim C10. Whatever the arguments, \<^verbatim>\<open>compute_shifts\<close> calls the engine only for
  rigid registration without a saved movie: the constructor gets \<open>pw_rigid = False\<close>
  and the constants \<open>niter_rig = 4\<close>, \<open>niter_els = 1\<close>, \<open>upsample_factor_grid = 4\<close>,
  \<open>min_mov = -5\<close>, \<open>num_splits_to_process_rig = None\<close>, and \<^verbatim>\<open>motion_correct\<close> gets
  \<open>save_movie = False\<close>. So an engine that refuses every other call gives the same
  result, and the result is computed from the rigid records alone.
\<close>

theorem rigid_only_fixed_configuration:
  "compute_shifts (rigid_only eng) stack pixel_size_um max_shift_um max_deviation_rigid
       patch_motion_um overlaps splits gSig_filt =
   compute_shifts eng stack pixel_size_um max_shift_um max_deviation_rigid
       patch_motion_um overlaps splits gSig_filt \<and>
   (\<forall>mc_dict. compute_shifts_mc_dict stack pixel_size_um max_shift_um max_deviation_rigid
       patch_motion_um overlaps splits gSig_filt = Inr mc_dict \<longrightarrow>
       fixed_configuration (mc_dict(''pw_rigid'' \<mapsto> PBool False)))"
  using rigid_only_same_result mc_dict_is_fixed by blast

theorem rigid_only_fixed_configuration_witness:
  "compute_shifts (rigid_only (replay [(1, 2)] [[7]] [[8]]))
     \<lparr>shape = [30, 20, 1], item = (\<lambda>ix. 0)\<rparr> (Scalar 1) (Scalar 6) 3 (Tuple [100, 100])
     (24, 24) 4 PNone = Inr ([- 2], [- 1])"
proof -
  have "compute_shifts (replay [(1, 2)] [[7]] [[8]])
     \<lparr>shape = [30, 20, 1], item = (\<lambda>ix. 0)\<rparr> (Scalar 1) (Scalar 6) 3 (Tuple [100, 100])
     (24, 24) 4 PNone = Inr ([- 2], [- 1])"
    by (simp add: compute_shifts_def compute_shifts_mc_dict_def bind_def truediv_def
          to_pixels_def replay_def negated_shifts_eq Let_def)
  then show ?thesis
    using rigid_only_fixed_configuration[of "replay [(1, 2)] [[7]] [[8]]"
            "\<lparr>shape = [30, 20, 1], item = (\<lambda>ix. 0)\<rparr>" "Scalar 1" "Scalar 6" 3
            "Tuple [100, 100]" "(24, 24)" 4 PNone]
    by simp
qed

section \<open>Properties of the pipeline\<close>

text \<open>
  Claim C2. For every requested sampling count and every number of chunks, the counts
  that the pipeline passes on are the minimum of the request and the number of chunks:
  never above the number of chunks, equal to the request when the request fits, equal
  to the number of chunks when it does not. Building the dictionary cannot fail.
\<close>

theorem sampling_counts_saturate:
  "\<exists>els rig.
     pipeline_mc_dict splits max_shifts max_deviation_rigid num_splits_to_process_els
       num_splits_to_process_rig pw_rigid strides overlaps niter_rig gSig_filt
       ''num_splits_to_process_els'' = Some (PInt els) \<and>
     pipeline_mc_dict splits max_shifts max_deviation_rigid num_splits_to_process_els
       num_splits_to_process_rig pw_rigid strides overlaps niter_rig gSig_filt
       ''num_splits_to_process_rig'' = Some (PInt rig) \<and>
     els \<le> splits \<and> rig \<le> splits \<and>
     (num_splits_to_process_els \<le> splits \<longrightarrow> els = num_splits_to_process_els) \<and>
     (num_splits_to_process_rig \<le> splits \<longrightarrow> rig = num_splits_to_process_rig) \<and>
     (splits < num_splits_to_process_els \<longrightarrow> els = splits) \<and>
     (splits < num_splits_to_process_rig \<longrightarrow> rig = splits)"
  by (simp add: pipeline_mc_dict_def Let_def)

theorem sampling_counts_saturate_witness:
  "pipeline_mc_dict 3 (6, 6) 3 5 2 False (30, 30) (10, 10) 4 PNone
     ''num_splits_to_process_els'' = Some (PInt 3) \<and>
   pipeline_mc_dict 3 (6, 6) 3 5 2 False (30, 30) (10, 10) 4 PNone
     ''num_splits_to_process_rig'' = Some (PInt 2)"
  using sampling_counts_saturate[of 3 "(6, 6)" 3 5 2 False "(30, 30)" "(10, 10)" 4 PNone]
  by auto







section \<open>Properties of the chunks\<close>

lemma number_of_chunks_eq:
  assumes "shape lazy_dataset = nframes # hw" and "frames_per_split \<noteq> 0"
  shows "number_of_chunks lazy_dataset frames_per_split
           = Inr \<lceil>real nframes / real_of_int frames_per_split\<rceil>"
  using assms
  by (simp add: number_of_chunks_def total_frames_def bind_def truediv_def math_ceil_def)

lemma chunks_cover:
  assumes "0 < f"
  shows "n \<le> nat \<lceil>real n / real_of_int f\<rceil> * nat f"
proof -
  let ?c = "\<lceil>real n / real_of_int f\<rceil>"
  have "real n / real_of_int f \<le> of_int ?c" by (rule le_of_int_ceiling)
  moreover have "0 < real_of_int f" using assms by simp
  ultimately have "real n \<le> of_int ?c * real_of_int f"
    by (simp only: pos_divide_le_eq)
  then have "real_of_int (int n) \<le> real_of_int (?c * f)" by simp
  then have le: "int n \<le> ?c * f" by (simp only: of_int_le_iff)
  have "0 \<le> real n / real_of_int f" using assms by simp
  then have c0: "0 \<le> ?c" by (simp only: zero_le_ceiling)
  have "nat ?c * nat f = nat (?c * f)"
    using c0 by (simp add: nat_mult_distrib)
  with le show ?thesis by linarith
qed

lemma chunks_needed:
  assumes "0 < f" and "k < nat \<lceil>real n / real_of_int f\<rceil>"
  shows "k * nat f < n"
proof -
  let ?c = "\<lceil>real n / real_of_int f\<rceil>"
  from assms(2) have "int k \<le> ?c - 1" by linarith
  then have "real k \<le> real_of_int ?c - 1"
    by (metis of_int_1 of_int_diff of_int_le_iff of_int_of_nat_eq)
  also have "\<dots> < real n / real_of_int f"
    using ceiling_correct[of "real n / real_of_int f"] by simp
  finally have "real k * real_of_int f < real n"
    using assms(1) by (simp add: pos_less_divide_eq)
  then have "real (k * nat f) < real n"
    using assms(1) by simp
  then show ?thesis by (simp only: of_nat_less_iff)
qed

lemma concat_plan:
  "concat (map frames_of (plan n f m)) = [0 ..< min (m * f) n]"
proof (induction m)
  case 0
  show ?case by (simp add: plan_def)
next
  case (Suc m)
  have ps: "plan n f (Suc m) = plan n f m @ [chunk n f m]"
    by (simp add: plan_def)
  have "concat (map frames_of (plan n f (Suc m)))
          = concat (map frames_of (plan n f m)) @ frames_of (chunk n f m)"
    unfolding ps by simp
  also have "\<dots> = [0 ..< min (m * f) n] @ [m * f ..< min ((m + 1) * f) n]"
    unfolding Suc.IH by (simp add: frames_of_def chunk_def)
  also have "\<dots> = [0 ..< min (Suc m * f) n]"
  proof (cases "m * f \<le> n")
    case True
    then have "[0 ..< min (m * f) n] @ [m * f ..< min ((m + 1) * f) n]
                 = [0 ..< m * f] @ [m * f ..< min ((m + 1) * f) n]"
      by (simp add: min_absorb1)
    also have "\<dots> = [0 ..< min ((m + 1) * f) n]"
    proof -
      have "m * f \<le> min ((m + 1) * f) n" using True by simp
      then show ?thesis
        using upt_add_eq_append[of 0 "m * f" "min ((m + 1) * f) n - m * f"] by simp
    qed
    finally show ?thesis by simp
  next
    case False
    then show ?thesis by (simp add: min_def)
  qed
  finally show ?case .
qed

lemma length_plan: "length (plan n f m) = m"
  by (simp add: plan_def)

lemma chunk_bounds:
  assumes "0 < f" and "k < nat \<lceil>real n / real_of_int f\<rceil>"
  shows "fst (chunk n (nat f) k) < snd (chunk n (nat f) k)"
    and "snd (chunk n (nat f) k) - fst (chunk n (nat f) k) \<le> nat f"
proof -
  have lt: "k * nat f < n" by (rule chunks_needed[OF assms])
  have pos: "0 < nat f" using assms(1) by simp
  show "fst (chunk n (nat f) k) < snd (chunk n (nat f) k)"
    using lt pos by (simp add: chunk_def)
  show "snd (chunk n (nat f) k) - fst (chunk n (nat f) k) \<le> nat f"
    by (simp add: chunk_def)
qed

lemma chunk_contiguous:
  assumes "0 < f" and "Suc k < nat \<lceil>real n / real_of_int f\<rceil>"
  shows "snd (chunk n (nat f) k) = fst (chunk n (nat f) (Suc k))"
proof -
  have "Suc k * nat f < n" by (rule chunks_needed[OF assms])
  then show ?thesis by (simp add: chunk_def)
qed

lemma plan_partition:
  assumes "0 < f"
  shows "concat (map frames_of (plan n (nat f) (nat \<lceil>real n / real_of_int f\<rceil>))) = [0 ..< n]"
  using chunks_cover[OF assms, of n] by (simp add: concat_plan min_absorb2)

text \<open>
  Claim C1. For a positive number of frames and a positive \<open>frames_per_split\<close>, the
  pipeline computes \<open>ceil(T / frames_per_split)\<close> chunks and passes this number to the
  engine for both passes; \<^verbatim>\<open>compute_shifts\<close> computes the same number. That many chunks of \<open>frames_per_split\<close> frames (the last one
  cut at the end) partition the frames \<open>0 .. T - 1\<close>: in order they list every frame
  once, each chunk is non-empty and starts where the one before it ends.
\<close>

theorem chunks_partition_frames:
  assumes "shape lazy_dataset = nframes # hw" and "0 < nframes" and "0 < frames_per_split"
  shows "\<exists>splits chunks.
           number_of_chunks lazy_dataset frames_per_split = Inr splits \<and>
           splits = \<lceil>real nframes / real_of_int frames_per_split\<rceil> \<and>
           pipeline_mc_dict splits max_shifts max_deviation_rigid num_splits_to_process_els
             num_splits_to_process_rig pw_rigid strides overlaps niter_rig gSig_filt
             ''splits_rig'' = Some (PInt splits) \<and>
           pipeline_mc_dict splits max_shifts max_deviation_rigid num_splits_to_process_els
             num_splits_to_process_rig pw_rigid strides overlaps niter_rig gSig_filt
             ''splits_els'' = Some (PInt splits) \<and>
           chunks = plan nframes (nat frames_per_split) (nat splits) \<and>
           int (length chunks) = splits \<and>
           concat (map frames_of chunks) = [0 ..< nframes] \<and>
           (\<forall>c \<in> set chunks. fst c < snd c \<and> snd c - fst c \<le> nat frames_per_split) \<and>
           (\<forall>k. Suc k < length chunks \<longrightarrow> snd (chunks ! k) = fst (chunks ! Suc k)) \<and>
           (\<forall>stack nx ny. shape stack = [nx, ny, nframes] \<longrightarrow>
              compute_shifts_chunks stack frames_per_split = Inr chunks)"
proof -
  let ?s = "\<lceil>real nframes / real_of_int frames_per_split\<rceil>"
  let ?cs = "plan nframes (nat frames_per_split) (nat ?s)"
  have n: "number_of_chunks lazy_dataset frames_per_split = Inr ?s"
    using assms(1,3) by (intro number_of_chunks_eq) auto
  have "0 \<le> real nframes / real_of_int frames_per_split" using assms(3) by simp
  then have s0: "0 \<le> ?s" by (simp only: zero_le_ceiling)
  have len: "int (length ?cs) = ?s" using s0 by (simp add: length_plan)
  have part: "concat (map frames_of ?cs) = [0 ..< nframes]"
    by (rule plan_partition[OF assms(3)])
  have each: "\<forall>c \<in> set ?cs. fst c < snd c \<and> snd c - fst c \<le> nat frames_per_split"
    using chunk_bounds[OF assms(3)] by (auto simp: plan_def)
  have cont: "\<forall>k. Suc k < length ?cs \<longrightarrow> snd (?cs ! k) = fst (?cs ! Suc k)"
    using chunk_contiguous[OF assms(3)] by (simp add: plan_def)
  have d1: "pipeline_mc_dict ?s max_shifts max_deviation_rigid num_splits_to_process_els
             num_splits_to_process_rig pw_rigid strides overlaps niter_rig gSig_filt
             ''splits_rig'' = Some (PInt ?s)"
    by (simp add: pipeline_mc_dict_def Let_def)
  have d2: "pipeline_mc_dict ?s max_shifts max_deviation_rigid num_splits_to_process_els
             num_splits_to_process_rig pw_rigid strides overlaps niter_rig gSig_filt
             ''splits_els'' = Some (PInt ?s)"
    by (simp add: pipeline_mc_dict_def Let_def)
  have cs: "\<forall>stack nx ny. shape stack = [nx, ny, nframes] \<longrightarrow>
              compute_shifts_chunks stack frames_per_split = Inr ?cs"
    using assms(3)
    by (simp add: compute_shifts_chunks_def bind_def truediv_def py_int_def np_ceil_def)
  show ?thesis
    apply (rule exI[of _ ?s], rule exI[of _ ?cs])
    using n len part each cont d1 d2 cs by blast
qed

theorem chunks_partition_frames_witness:
  "number_of_chunks \<lparr>shape = [10, 8, 8], item = (\<lambda>ix. 0)\<rparr> 4 = Inr 3 \<and>
   plan 10 4 3 = [(0, 4), (4, 8), (8, 10)] \<and>
   concat (map frames_of (plan 10 4 3)) = [0 ..< 10]"
proof -
  have c: "\<lceil>real 10 / real_of_int 4\<rceil> = 3" by simp
  have p: "plan 10 4 3 = [(0, 4), (4, 8), (8, 10)]"
    by (simp add: plan_def chunk_def upt_rec)
  from chunks_partition_frames[of "\<lparr>shape = [10, 8, 8], item = (\<lambda>ix. 0)\<rparr>" 10 "[8, 8]" 4]
  obtain splits chunks where
    "number_of_chunks \<lparr>shape = [10, 8, 8], item = (\<lambda>ix. 0)\<rparr> 4 = Inr splits"
    "splits = \<lceil>real 10 / real_of_int 4\<rceil>"
    "chunks = plan 10 (nat 4) (nat splits)"
    "concat (map frames_of chunks) = [0 ..< 10]"
    by auto
  with c p show ?thesis by simp
qed

section \<open>Properties of the validation\<close>

lemma pipeline_strides_overlaps:
  "pipeline_mc_dict splits max_shifts max_deviation_rigid num_splits_to_process_els
     num_splits_to_process_rig pw_rigid strides overlaps niter_rig gSig_filt ''strides''
     = Some (int_pair strides) \<and>
   pipeline_mc_dict splits max_shifts max_deviation_rigid num_splits_to_process_els
     num_splits_to_process_rig pw_rigid strides overlaps niter_rig gSig_filt ''overlaps''
     = Some (int_pair overlaps) \<and>
   pipeline_mc_dict splits max_shifts max_deviation_rigid num_splits_to_process_els
     num_splits_to_process_rig pw_rigid strides overlaps niter_rig gSig_filt ''pw_rigid''
     = Some (PBool pw_rigid)"
  by (simp add: pipeline_mc_dict_def Let_def)

lemma patch_too_large_pair:
  assumes "shape dataset = [t, h, w]"
    and "kw ''strides'' = Some (int_pair strides)"
    and "kw ''overlaps'' = Some (int_pair overlaps)"
  shows "patch_too_large dataset kw \<longleftrightarrow>
           int h \<le> fst strides + fst overlaps \<or> int w \<le> snd strides + snd overlaps"
  using assms by (simp add: patch_too_large_def field_of_view_def int_pair_def)

lemma validating_rejects:
  assumes "shape dataset = [t, h, w]"
    and "kw ''pw_rigid'' = Some (PBool True)"
    and "kw ''strides'' = Some (int_pair strides)"
    and "kw ''overlaps'' = Some (int_pair overlaps)"
    and "int h \<le> fst strides + fst overlaps \<or> int w \<le> snd strides + snd overlaps"
  shows "MotionCorrect (validating eng) dataset kw = Inl ConfigurationError"
  using assms patch_too_large_pair[OF assms(1,3,4)]
  by (simp add: validating_def invalid_configuration_def)

lemma validating_accepts:
  assumes "\<not> invalid_configuration dataset kw"
  shows "MotionCorrect (validating eng) dataset kw = MotionCorrect eng dataset kw"
  using assms by (simp add: validating_def)

text \<open>
  Claim C5. With \<open>pw_rigid = True\<close> and a patch (\<open>strides[i] + overlaps[i]\<close>) that is not
  smaller than the field of view on some axis, the construction of the configuration
  fails with \<open>ConfigurationError\<close>. In the pipeline this ends the run after the two
  first messages: the engine has done no work (no frame is read) and no archive is
  written. The strides and overlaps reach the constructor as the caller gave them.
\<close>

theorem invalid_geometry_rejected:
  assumes "shape lazy_dataset = [t, h, w]" and "frames_per_split \<noteq> 0"
    and "int h \<le> fst strides + fst overlaps \<or> int w \<le> snd strides + snd overlaps"
  shows "\<exists>splits mc_dict.
           number_of_chunks lazy_dataset frames_per_split = Inr splits \<and>
           mc_dict = pipeline_mc_dict splits max_shifts max_deviation_rigid
                       num_splits_to_process_els num_splits_to_process_rig True strides
                       overlaps niter_rig gSig_filt \<and>
           mc_dict ''strides'' = Some (int_pair strides) \<and>
           mc_dict ''overlaps'' = Some (int_pair overlaps) \<and>
           MotionCorrect (validating eng) lazy_dataset mc_dict = Inl ConfigurationError \<and>
           motion_correct_pipeline (validating eng) lazy_dataset outdir max_shifts
             max_deviation_rigid frames_per_split num_splits_to_process_els
             num_splits_to_process_rig True strides overlaps niter_rig gSig_filt save_movie
             template
             = ([Display Running, Display (NumberOfChunks splits)], Inl ConfigurationError) \<and>
           engine_work (fst (motion_correct_pipeline (validating eng) lazy_dataset outdir
             max_shifts max_deviation_rigid frames_per_split num_splits_to_process_els
             num_splits_to_process_rig True strides overlaps niter_rig gSig_filt save_movie
             template)) = [] \<and>
           saved_archives (fst (motion_correct_pipeline (validating eng) lazy_dataset outdir
             max_shifts max_deviation_rigid frames_per_split num_splits_to_process_els
             num_splits_to_process_rig True strides overlaps niter_rig gSig_filt save_movie
             template)) = []"
proof -
  let ?s = "\<lceil>real t / real_of_int frames_per_split\<rceil>"
  let ?d = "pipeline_mc_dict ?s max_shifts max_deviation_rigid
              num_splits_to_process_els num_splits_to_process_rig True strides
              overlaps niter_rig gSig_filt"
  have n: "number_of_chunks lazy_dataset frames_per_split = Inr ?s"
    using assms(1,2)
    by (simp add: number_of_chunks_def total_frames_def bind_def truediv_def math_ceil_def)
  have so: "?d ''strides'' = Some (int_pair strides)" "?d ''overlaps'' = Some (int_pair overlaps)"
    "?d ''pw_rigid'' = Some (PBool True)"
    using pipeline_strides_overlaps[of ?s max_shifts max_deviation_rigid
            num_splits_to_process_els num_splits_to_process_rig True strides overlaps
            niter_rig gSig_filt] by simp_all
  have rej: "MotionCorrect (validating eng) lazy_dataset ?d = Inl ConfigurationError"
    by (rule validating_rejects[OF assms(1) so(3) so(1) so(2) assms(3)])
  have run: "motion_correct_pipeline (validating eng) lazy_dataset outdir max_shifts
             max_deviation_rigid frames_per_split num_splits_to_process_els
             num_splits_to_process_rig True strides overlaps niter_rig gSig_filt save_movie
             template
             = ([Display Running, Display (NumberOfChunks ?s)], Inl ConfigurationError)"
    by (simp add: motion_correct_pipeline_def n rej Let_def)
  show ?thesis
    apply (rule exI[of _ ?s], rule exI[of _ ?d])
    using n so(1,2) rej run by simp
qed

theorem invalid_geometry_rejected_witness:
  "motion_correct_pipeline (validating (replay [(1, 2)] [[7]] [[8]]))
     \<lparr>shape = [2500, 30, 40], item = (\<lambda>ix. 0)\<rparr> ''out'' (6, 6) 3 1000 5 5 True (25, 25) (6, 6)
     4 PNone True None
     = ([Display Running, Display (NumberOfChunks 3)], Inl ConfigurationError)"
proof -
  have n: "number_of_chunks \<lparr>shape = [2500, 30, 40], item = (\<lambda>ix. 0)\<rparr> 1000 = Inr 3"
    by (simp add: number_of_chunks_def total_frames_def bind_def truediv_def math_ceil_def)
  from invalid_geometry_rejected[of "\<lparr>shape = [2500, 30, 40], item = (\<lambda>ix. 0)\<rparr>" 2500 30 40
          1000 "(25, 25)" "(6, 6)" "(6, 6)" 3 5 5 4 PNone "replay [(1, 2)] [[7]] [[8]]"
          "''out''" True None] n
  show ?thesis by auto
qed

section \<open>The scenario of the test\<close>

lemma scenario_mc_dict:
  assumes "shape stack = [nx, ny, 500]"
  shows "\<exists>mc_dict.
           compute_shifts_mc_dict stack (Scalar 1) (Scalar 6) 3 (Tuple [100, 100]) (24, 24) 4
             PNone = Inr mc_dict \<and>
           mc_dict ''splits_rig'' = Some (PInt 125) \<and>
           mc_dict ''splits_els'' = Some (PInt 125) \<and>
           mc_dict ''max_shifts'' = Some (PList [PInt 6, PInt 6])"
  using assms
  by (simp add: compute_shifts_mc_dict_def bind_def truediv_def to_pixels_def Let_def
        py_int_def np_ceil_def)

lemma chunk_full:
  assumes "(k + 1) * f \<le> n"
  shows "chunk n f k = (k * f, k * f + f)"
  using assms by (simp add: chunk_def min_absorb1)

lemma plan_500_4: "chunk_lengths (plan 500 4 125) = replicate 125 4"
proof (rule nth_equalityI)
  show "length (chunk_lengths (plan 500 4 125)) = length (replicate 125 (4::nat))"
    by (simp add: plan_def chunk_lengths_def)
next
  fix i assume "i < length (chunk_lengths (plan 500 4 125))"
  then have i: "i < 125" by (simp add: plan_def chunk_lengths_def)
  then have "(i + 1) * 4 \<le> 500" by simp
  then have "chunk 500 4 i = (i * 4, i * 4 + 4)" by (rule chunk_full)
  then show "chunk_lengths (plan 500 4 125) ! i = replicate 125 (4::nat) ! i"
    using i by (simp add: plan_def chunk_lengths_def)
qed

lemma last_plan: "0 < m \<Longrightarrow> last (plan n f m) = chunk n f (m - 1)"
  by (cases m) (simp_all add: plan_def)

lemma scenario_chunks:
  assumes "shape stack = [nx, ny, 500]"
  shows "compute_shifts_chunks stack 4 = Inr (plan 500 4 125)"
  using assms
  by (simp add: compute_shifts_chunks_def bind_def truediv_def py_int_def np_ceil_def)

lemma plan_500_4_partition: "concat (map frames_of (plan 500 4 125)) = [0 ..< 500]"
  by (simp add: concat_plan)

text \<open>
  Claim C7, as stated, fails: with 500 frames and \<open>splits = 4\<close> the chunks are not 125
  frames long. There are 125 chunks of 4 frames, not 4 chunks of 125 frames.
\<close>

theorem chunks_of_125_frames_counterexample:
  "map_sum id chunk_lengths
     (compute_shifts_chunks \<lparr>shape = [30, 20, 500], item = (\<lambda>ix. 0)\<rparr> 4)
     = Inr (replicate 125 4) \<and>
   map_sum id chunk_lengths
     (compute_shifts_chunks \<lparr>shape = [30, 20, 500], item = (\<lambda>ix. 0)\<rparr> 4)
     \<noteq> Inr (replicate 4 125)"
proof -
  have "compute_shifts_chunks \<lparr>shape = [30, 20, 500], item = (\<lambda>ix. 0)\<rparr> 4
          = Inr (plan 500 4 125)"
    by (rule scenario_chunks) simp
  moreover have "replicate 125 (4::nat) \<noteq> replicate 4 125"
    by (metis length_replicate numeral_eq_iff semiring_norm(85) semiring_norm(88) semiring_norm(89))
  ultimately show ?thesis by (simp add: plan_500_4)
qed

text \<open>
  Claim C7, amended. In the scenario (500 frames, \<open>pixel_size_um = 1.0\<close>,
  \<open>max_shift_um = 6.0\<close>, \<open>splits = 4\<close>, the other arguments at their defaults) the value
  4 is the number of frames in a chunk: the engine is told to make 125 chunks
  (\<open>splits_rig = splits_els = 125\<close>), the chunks have 4 frames each and partition the
  500 frames, and the run is rigid-only.
\<close>

theorem scenario_chunks_of_4_frames:
  assumes "shape stack = [nx, ny, 500]"
  shows "\<exists>mc_dict chunks.
           compute_shifts_mc_dict stack (Scalar 1) (Scalar 6) 3 (Tuple [100, 100]) (24, 24) 4
             PNone = Inr mc_dict \<and>
           mc_dict ''splits_rig'' = Some (PInt 125) \<and>
           mc_dict ''splits_els'' = Some (PInt 125) \<and>
           compute_shifts_chunks stack 4 = Inr chunks \<and>
           length chunks = 125 \<and>
           chunk_lengths chunks = replicate 125 4 \<and>
           concat (map frames_of chunks) = [0 ..< 500] \<and>
           fixed_configuration (mc_dict(''pw_rigid'' \<mapsto> PBool False)) \<and>
           compute_shifts (rigid_only eng) stack (Scalar 1) (Scalar 6) 3 (Tuple [100, 100])
             (24, 24) 4 PNone =
           compute_shifts eng stack (Scalar 1) (Scalar 6) 3 (Tuple [100, 100]) (24, 24) 4 PNone"
proof -
  from scenario_mc_dict[OF assms] obtain mc_dict where
    d: "compute_shifts_mc_dict stack (Scalar 1) (Scalar 6) 3 (Tuple [100, 100]) (24, 24) 4
             PNone = Inr mc_dict"
    and s: "mc_dict ''splits_rig'' = Some (PInt 125)" "mc_dict ''splits_els'' = Some (PInt 125)"
    by blast
  have l: "length (plan 500 4 125) = 125" by (simp add: plan_def)
  show ?thesis
    apply (rule exI[of _ mc_dict], rule exI[of _ "plan 500 4 125"])
    using d s scenario_chunks[OF assms] l plan_500_4 plan_500_4_partition
      mc_dict_is_fixed[OF d] rigid_only_same_result
    by simp
qed

theorem scenario_chunks_of_4_frames_witness:
  "map_sum id (\<lambda>cs. (length cs, hd cs, last cs))
     (compute_shifts_chunks \<lparr>shape = [30, 20, 500], item = (\<lambda>ix. 0)\<rparr> 4)
     = Inr (125, (0, 4), (496, 500))"
proof -
  from scenario_chunks_of_4_frames[of "\<lparr>shape = [30, 20, 500], item = (\<lambda>ix. 0)\<rparr>" 30 20]
  obtain chunks where
    c: "compute_shifts_chunks \<lparr>shape = [30, 20, 500], item = (\<lambda>ix. 0)\<rparr> 4 = Inr chunks"
    and l: "length chunks = 125"
    by auto
  have p: "compute_shifts_chunks \<lparr>shape = [30, 20, 500], item = (\<lambda>ix. 0)\<rparr> 4
             = Inr (plan 500 4 125)"
    by (rule scenario_chunks) simp
  have h: "hd (plan 500 4 125) = (0, 4)"
    by (simp add: plan_def chunk_def hd_map upt_conv_Cons)
  have t: "last (plan 500 4 125) = (496, 500)"
    by (simp add: last_plan chunk_def)
  from c l p h t show ?thesis by simp
qed

section \<open>Properties of the test\<close>





























end
